theory Spec2Isabelle
  imports Complex_Main "HOL-Library.Sublist"
begin

section \<open>Signature matching (ai\_detection.py)\<close>

text \<open>
  The list of known crawler tokens, in the order of the source. Python strings are
  sequences of code points; here a \<open>char\<close> stands for one code point, and all the
  tokens are ASCII.
\<close>

definition AI_CRAWLERS :: "string list" where
  "AI_CRAWLERS =
     [''GPTBot'', ''OAI-SearchBot'', ''ChatGPT-User'', ''anthropic-ai'', ''ClaudeBot'',
      ''PerplexityBot'', ''Google-Extended'', ''Bytespider'', ''Amazonbot'',
      ''Applebot-Extended'', ''CCBot'']"

text \<open>
  \<^verbatim>\<open>return any(crawler in user_agent for crawler in AI_CRAWLERS)\<close>.
  Python's \<^verbatim>\<open>a in b\<close> on strings is the contiguous-substring test, \<^const>\<open>sublist\<close>;
  it is case-sensitive. The result is a boolean.
\<close>

definition is_ai_crawler :: "string \<Rightarrow> bool" where
  "is_ai_crawler user_agent = list_ex (\<lambda>crawler. sublist crawler user_agent) AI_CRAWLERS"

section \<open>Effects: exceptions, the origin, the log service, the console\<close>

text \<open>
  A Python exception derived from \<^verbatim>\<open>Exception\<close>. The timeout of an aiohttp session
  surfaces as one of them.
\<close>

datatype py_exception =
    TimeoutError
  | ClientError string
  | PayloadError string
  | ValueError string
  | AttributeError string

text \<open>
  The dataclass \<^verbatim>\<open>LogEntry\<close> of logging.py. Its fields \<^verbatim>\<open>method\<close> and
  \<^verbatim>\<open>is_ai_crawler\<close> are \<open>http_method\<close> and \<open>is_ai_crawler_flag\<close> here.
\<close>

record LogEntry =
  timestamp :: string
  http_method :: string
  path :: string
  user_agent :: string
  is_ai_crawler_flag :: bool
  status_code :: int
  remote_addr :: string
  referer :: string

text \<open>What the f-strings handed to \<^verbatim>\<open>print\<close> say, one constructor per call site.\<close>

datatype diagnostic =
    AICrawlerDetected string string string
  | ProxiedRequest string string int
  | FailedToFetchFromOrigin py_exception
  | ErrorInHandleRequest py_exception
  | LogNonSuccessStatus int
  | LogErrorResponse string
  | FailedToForwardLog py_exception

text \<open>
  The observable actions of one run, in order: a line printed, a POST of a log entry to
  the log service attempted, a request to the origin attempted (method, url, headers,
  data).
\<close>

datatype event =
    Printed diagnostic
  | LogPostAttempted LogEntry
  | OriginRequested string string "(string \<times> string) list" "string option"

fun is_LogPostAttempted :: "event \<Rightarrow> bool" where
  "is_LogPostAttempted (LogPostAttempted _) = True"
| "is_LogPostAttempted _ = False"

fun is_OriginRequested :: "event \<Rightarrow> bool" where
  "is_OriginRequested (OriginRequested _ _ _ _) = True"
| "is_OriginRequested _ = False"

text \<open>
  A computation takes the events so far and returns either the exception it raised or
  its value, with the events extended.
\<close>

type_synonym 'a io = "event list \<Rightarrow> (py_exception + 'a) \<times> event list"

definition ret :: "'a \<Rightarrow> 'a io" where
  "ret x tr = (Inr x, tr)"

definition raise :: "py_exception \<Rightarrow> 'a io" where
  "raise e tr = (Inl e, tr)"

definition bind :: "'a io \<Rightarrow> ('a \<Rightarrow> 'b io) \<Rightarrow> 'b io" where
  "bind m f tr = (case m tr of (Inl e, tr') \<Rightarrow> (Inl e, tr') | (Inr x, tr') \<Rightarrow> f x tr')"

text \<open>\<^verbatim>\<open>try: m  except Exception as e: handler(e)\<close>\<close>

definition try_except :: "'a io \<Rightarrow> (py_exception \<Rightarrow> 'a io) \<Rightarrow> 'a io" where
  "try_except m handler tr =
     (case m tr of (Inl e, tr') \<Rightarrow> handler e tr' | (Inr x, tr') \<Rightarrow> (Inr x, tr'))"

definition emit :: "event \<Rightarrow> unit io" where
  "emit ev tr = (Inr (), tr @ [ev])"

definition print :: "diagnostic \<Rightarrow> unit io" where
  "print d = emit (Printed d)"

text \<open>
  What the log service does with one POST: the connection or the timeout raises, or a
  response arrives with a status and a body whose read may itself raise.
\<close>

datatype sink_outcome =
    SinkRaises py_exception
  | SinkResponds int "py_exception + string"

text \<open>
  What the origin does with the forwarded request: \<^verbatim>\<open>session.request\<close> raises
  (connection failure, timeout), or a response arrives with status, headers and a body
  whose read by \<^verbatim>\<open>text()\<close> may raise.
\<close>

datatype origin_outcome =
    OriginRaises py_exception
  | OriginResponds int "(string \<times> string) list" "py_exception + string"

section \<open>Log forwarding (logging.py)\<close>

text \<open>
  The body of the \<^verbatim>\<open>try\<close> in \<^verbatim>\<open>forward_log\<close>. The outcome of the POST is
  \<open>sink n\<close>, where \<open>n\<close> is the number of POSTs attempted before this one.
\<close>

definition session_post :: "(nat \<Rightarrow> sink_outcome) \<Rightarrow> LogEntry \<Rightarrow> (int \<times> (py_exception + string)) io" where
  "session_post sink log_data tr =
     (case sink (length (filter is_LogPostAttempted tr)) of
        SinkRaises e \<Rightarrow> (Inl e, tr @ [LogPostAttempted log_data])
      | SinkResponds status txt \<Rightarrow> (Inr (status, txt), tr @ [LogPostAttempted log_data]))"

definition response_text :: "py_exception + string \<Rightarrow> string io" where
  "response_text txt = (case txt of Inl e \<Rightarrow> raise e | Inr s \<Rightarrow> ret s)"

definition forward_log_body :: "(nat \<Rightarrow> sink_outcome) \<Rightarrow> LogEntry \<Rightarrow> unit io" where
  "forward_log_body sink log_entry =
     bind (session_post sink log_entry) (\<lambda>(status, txt).
       if \<not> (200 \<le> status \<and> status < 300) then
         bind (print (LogNonSuccessStatus status)) (\<lambda>_.
         bind (response_text txt) (\<lambda>error_text.
         print (LogErrorResponse error_text)))
       else ret ())"

definition forward_log :: "(nat \<Rightarrow> sink_outcome) \<Rightarrow> LogEntry \<Rightarrow> unit io" where
  "forward_log sink log_entry =
     try_except (forward_log_body sink log_entry) (\<lambda>e. print (FailedToForwardLog e))"

section \<open>The request handler (main.py)\<close>

text \<open>
  The attribute \<^verbatim>\<open>client\<close> of a request: the object has no such attribute
  (\<^verbatim>\<open>hasattr(request, 'client')\<close> is false), or the attribute is \<^verbatim>\<open>None\<close>, or it is an
  address with a \<^verbatim>\<open>host\<close>.
\<close>

datatype client_attr = NoClientAttribute | ClientNone | ClientHost string

text \<open>
  The request object, by the attributes the handler reads: \<^verbatim>\<open>request.method\<close>,
  \<^verbatim>\<open>str(request.url)\<close>, \<^verbatim>\<open>request.url.path\<close>, \<^verbatim>\<open>request.headers\<close>,
  \<^verbatim>\<open>request.client\<close> and \<^verbatim>\<open>await request.body()\<close> (\<open>None\<close> when
  \<^verbatim>\<open>hasattr(request, 'body')\<close> is false, \<open>Some (Inl e)\<close> when reading the body raises).
\<close>

record request =
  r_method :: string
  r_url :: string
  r_path :: string
  r_headers :: "(string \<times> string) list"
  r_client :: client_attr
  r_body :: "(py_exception + string) option"

text \<open>The dictionary the handler returns.\<close>

record response =
  statusCode :: int
  headers :: "(string \<times> string) list"
  body :: string

text \<open>
  A header collection is the list of its (name, value) pairs in order; a name may occur
  more than once, and a lookup by name finds the first value. Names are compared as
  spelled. \<^verbatim>\<open>headers.get(key, default)\<close>:
\<close>

definition headers_get :: "(string \<times> string) list \<Rightarrow> string \<Rightarrow> string \<Rightarrow> string" where
  "headers_get hs key dflt = (case map_of hs key of Some v \<Rightarrow> v | None \<Rightarrow> dflt)"

text \<open>
  \<^verbatim>\<open>dict(headers)\<close>: a dictionary has one value per key, so of the pairs with the same
  name only one stays, the first, at the place of the first.
\<close>

primrec dict_of :: "(string \<times> string) list \<Rightarrow> (string \<times> string) list" where
  "dict_of [] = []"
| "dict_of (h # hs) = h # filter (\<lambda>h'. fst h' \<noteq> fst h) (dict_of hs)"

text \<open>A value that is either raised or returned.\<close>

definition from_result :: "py_exception + 'a \<Rightarrow> 'a io" where
  "from_result r = (case r of Inl e \<Rightarrow> raise e | Inr x \<Rightarrow> ret x)"

definition ORIGIN_URL :: string where
  "ORIGIN_URL = ''http://www.mysite.com/''"

text \<open>\<^verbatim>\<open>s.rstrip('/')\<close>\<close>

definition rstrip_slash :: "string \<Rightarrow> string" where
  "rstrip_slash s = rev (dropWhile (\<lambda>c. c = CHR ''/'') (rev s))"

text \<open>The triple-quoted literal served to crawlers, with its line breaks and indentation.\<close>

definition response_content :: string where
  "response_content =
     [CHR 0x0A] @ ''            <html>'' @
     [CHR 0x0A] @ ''                <head><title>AI-Ready Content</title></head>'' @
     [CHR 0x0A] @ ''                <body>This is content optimized for AI crawlers.</body>'' @
     [CHR 0x0A] @ ''            </html>'' @
     [CHR 0x0A] @ ''            ''"

text \<open>\<^verbatim>\<open>await request.body() if hasattr(request, 'body') else None\<close>\<close>

definition request_body :: "request \<Rightarrow> string option io" where
  "request_body request =
     (case r_body request of
        None \<Rightarrow> ret None
      | Some (Inl e) \<Rightarrow> raise e
      | Some (Inr data) \<Rightarrow> ret (Some data))"

text \<open>Entering \<^verbatim>\<open>async with session.request(...) as origin_response\<close>.\<close>

definition session_request ::
  "origin_outcome \<Rightarrow> string \<Rightarrow> string \<Rightarrow> (string \<times> string) list \<Rightarrow> string option \<Rightarrow>
   (int \<times> (string \<times> string) list \<times> (py_exception + string)) io" where
  "session_request origin meth url hs data tr =
     (case origin of
        OriginRaises e \<Rightarrow> (Inl e, tr @ [OriginRequested meth url hs data])
      | OriginResponds status rhs txt \<Rightarrow>
          (Inr (status, rhs, txt), tr @ [OriginRequested meth url hs data]))"

text \<open>The body of the inner \<^verbatim>\<open>try\<close>: the transparent proxy.\<close>

definition proxy_body ::
  "origin_outcome \<Rightarrow> (nat \<Rightarrow> sink_outcome) \<Rightarrow> request \<Rightarrow> LogEntry \<Rightarrow> response io" where
  "proxy_body origin sink request log_entry =
     (let origin_url = rstrip_slash ORIGIN_URL @ r_path request in
      bind (request_body request) (\<lambda>data.
      bind (session_request origin (r_method request) origin_url
              (dict_of (r_headers request)) data)
        (\<lambda>(status, origin_headers, txt).
      bind (print (ProxiedRequest (r_method request) (r_path request) status)) (\<lambda>_.
      bind (forward_log sink (log_entry\<lparr>status_code := status\<rparr>)) (\<lambda>_.
      bind (response_text txt) (\<lambda>response_body.
      ret \<lparr>statusCode = status, headers = dict_of origin_headers,
           body = response_body\<rparr>))))))"

text \<open>\<^verbatim>\<open>user_agent = request.headers.get('User-Agent', '')\<close>\<close>

definition request_user_agent :: "request \<Rightarrow> string" where
  "request_user_agent request = headers_get (r_headers request) ''User-Agent'' []"

text \<open>
  \<^verbatim>\<open>remote_addr = request.client.host if hasattr(request, 'client') else 'unknown'\<close>:
  when the attribute is there and is \<^verbatim>\<open>None\<close>, reading \<^verbatim>\<open>host\<close> raises
  \<^verbatim>\<open>AttributeError\<close> (its message is written here without quotation marks).
\<close>

definition request_remote_addr :: "request \<Rightarrow> py_exception + string" where
  "request_remote_addr request =
     (case r_client request of
        NoClientAttribute \<Rightarrow> Inr ''unknown''
      | ClientNone \<Rightarrow> Inl (AttributeError ''NoneType object has no attribute host'')
      | ClientHost host \<Rightarrow> Inr host)"

text \<open>
  The entry built before the \<^verbatim>\<open>try\<close>:
  \<^verbatim>\<open>LogEntry(timestamp=current_time, method=method, path=path, user_agent=user_agent,
  is_ai_crawler=is_ai_crawler(user_agent), status_code=200, remote_addr=remote_addr,
  referer=referer)\<close>, with \<^verbatim>\<open>referer = request.headers.get('Referer', '')\<close>.
\<close>

definition request_log_entry :: "string \<Rightarrow> request \<Rightarrow> string \<Rightarrow> LogEntry" where
  "request_log_entry current_time request addr =
     \<lparr>timestamp = current_time, http_method = r_method request, path = r_path request,
      user_agent = request_user_agent request,
      is_ai_crawler_flag = is_ai_crawler (request_user_agent request),
      status_code = 200,
      remote_addr = addr,
      referer = headers_get (r_headers request) ''Referer'' []\<rparr>"

text \<open>
  \<^verbatim>\<open>handle_request\<close>. The clock reading \<open>current_time\<close>, the behaviour of the origin and
  of the log service are parameters. The reads of the request and the construction of
  the log entry come before the \<^verbatim>\<open>try\<close>, so what they raise leaves the handler.
  Assigning \<^verbatim>\<open>log_entry.status_code\<close> is a record update; the status is the only field
  ever assigned.
\<close>

definition handle_request ::
  "string \<Rightarrow> origin_outcome \<Rightarrow> (nat \<Rightarrow> sink_outcome) \<Rightarrow> request \<Rightarrow> response io" where
  "handle_request current_time origin sink request =
     (let ua = request_user_agent request in
      bind (from_result (request_remote_addr request)) (\<lambda>addr.
      let log_entry = request_log_entry current_time request addr in
      try_except
        (if is_ai_crawler ua then
           bind (print (AICrawlerDetected ua addr (r_path request))) (\<lambda>_.
           bind (forward_log sink (log_entry\<lparr>status_code := 200\<rparr>)) (\<lambda>_.
           ret \<lparr>statusCode = 200,
                headers = [(''Content-Type'', ''text/html; charset=utf-8'')],
                body = response_content\<rparr>))
         else
           try_except (proxy_body origin sink request log_entry)
             (\<lambda>proxy_error.
                bind (print (FailedToFetchFromOrigin proxy_error)) (\<lambda>_.
                bind (forward_log sink (log_entry\<lparr>status_code := 502\<rparr>)) (\<lambda>_.
                ret \<lparr>statusCode = 502, headers = [(''Content-Type'', ''text/plain'')],
                     body = ''Failed to fetch from origin''\<rparr>))))
        (\<lambda>e.
           bind (print (ErrorInHandleRequest e)) (\<lambda>_.
           bind (forward_log sink (log_entry\<lparr>status_code := 500\<rparr>)) (\<lambda>_.
           ret \<lparr>statusCode = 500, headers = [(''Content-Type'', ''text/plain'')],
                body = ''Internal Server Error''\<rparr>)))))"

text \<open>\<^verbatim>\<open>fetch_handler\<close> is the entry point; it awaits \<^verbatim>\<open>handle_request\<close>.\<close>

definition fetch_handler ::
  "string \<Rightarrow> origin_outcome \<Rightarrow> (nat \<Rightarrow> sink_outcome) \<Rightarrow> request \<Rightarrow> response io" where
  "fetch_handler = handle_request"

section \<open>Heuristic detection (extra/heuristic\_detection.py)\<close>

text \<open>The dataclass \<^verbatim>\<open>HeuristicDetectionConfig\<close>, after \<^verbatim>\<open>__post_init__\<close>.\<close>

record HeuristicDetectionConfig =
  max_requests_per_minute :: int
  suspicious_user_agent_words :: "string list"
  required_headers :: "string list"
  min_accept_language_length :: int
  enable_robots_check :: bool
  enable_asset_request_check :: bool

text \<open>
  The constructor followed by \<^verbatim>\<open>__post_init__\<close>: a list argument left at \<^verbatim>\<open>None\<close>
  gets its default.
\<close>

definition HeuristicDetectionConfig_init ::
  "int \<Rightarrow> string list option \<Rightarrow> string list option \<Rightarrow> int \<Rightarrow> bool \<Rightarrow> bool \<Rightarrow>
   HeuristicDetectionConfig" where
  "HeuristicDetectionConfig_init max_rpm words required min_len robots assets =
     \<lparr>max_requests_per_minute = max_rpm,
      suspicious_user_agent_words =
        (case words of
           None \<Rightarrow> [''bot'', ''crawler'', ''scraper'', ''spider'', ''fetch'',
                    ''harvest'', ''extract'', ''scan'', ''monitor'', ''check'']
         | Some ws \<Rightarrow> ws),
      required_headers =
        (case required of
           None \<Rightarrow> [''accept'', ''accept-language'', ''accept-encoding'']
         | Some hs \<Rightarrow> hs),
      min_accept_language_length = min_len,
      enable_robots_check = robots,
      enable_asset_request_check = assets\<rparr>"

text \<open>\<^verbatim>\<open>HeuristicDetectionConfig()\<close> with every field at its default.\<close>

definition get_default_heuristic_config :: HeuristicDetectionConfig where
  "get_default_heuristic_config = HeuristicDetectionConfig_init 60 None None 5 True True"

text \<open>
  The dataclass \<^verbatim>\<open>RequestContext\<close>; the timestamp is a \<^verbatim>\<open>datetime\<close>, here seconds
  since the epoch.
\<close>

record RequestContext =
  ctx_user_agent :: string
  ctx_headers :: "(string \<times> string) list"
  ctx_path :: string
  ctx_ip :: string
  ctx_timestamp :: int
  ctx_is_html_request :: bool
  ctx_requested_assets :: "string list"

text \<open>
  \<^verbatim>\<open>class IPRequestTracker\<close>: its \<^verbatim>\<open>__init__\<close> is \<^verbatim>\<open>pass\<close>, so an instance has no
  fields, and the class has no method that records a request.
\<close>

datatype IPRequestTracker = IPRequestTracker

definition create_ip_request_tracker :: IPRequestTracker where
  "create_ip_request_tracker = IPRequestTracker"

text \<open>The detection functions: each body is \<^verbatim>\<open>return False\<close> under a TODO docstring.\<close>

definition is_ai_crawler_by_heuristics :: "RequestContext \<Rightarrow> HeuristicDetectionConfig \<Rightarrow> bool" where
  "is_ai_crawler_by_heuristics ctx config = False"

definition has_suspicious_user_agent :: "string \<Rightarrow> string list \<Rightarrow> bool" where
  "has_suspicious_user_agent ua suspicious_words = False"

definition has_suspicious_headers :: "(string \<times> string) list \<Rightarrow> string list \<Rightarrow> bool" where
  "has_suspicious_headers hs required = False"

definition has_high_request_rate :: "string \<Rightarrow> IPRequestTracker \<Rightarrow> int \<Rightarrow> bool" where
  "has_high_request_rate ip tracker max_per_minute = False"

definition accesses_unlinked_content :: "string \<Rightarrow> string set \<Rightarrow> bool" where
  "accesses_unlinked_content p known_linked_paths = False"

definition ignores_robots_txt :: "string \<Rightarrow> string \<Rightarrow> (string \<rightharpoonup> string list) \<Rightarrow> bool" where
  "ignores_robots_txt p ua robots_rules = False"

definition missing_asset_requests :: "RequestContext \<Rightarrow> IPRequestTracker \<Rightarrow> bool" where
  "missing_asset_requests ctx tracker = False"

definition analyze_behavior_patterns :: "RequestContext list \<Rightarrow> bool" where
  "analyze_behavior_patterns requests = False"

section \<open>Metrics (extra/metrics.py)\<close>

text \<open>
  metrics.py declares its own \<^verbatim>\<open>LogEntry\<close> and \<^verbatim>\<open>AI_CRAWLERS\<close>, field for field and
  token for token those of logging.py and ai\_detection.py; the model shares them.
  Python floats are modelled by reals; no result below depends on them.
\<close>

record Metrics =
  total_requests :: int
  ai_crawler_requests :: int
  proxy_requests :: int
  error_requests :: int
  start_time :: string
  last_request_time :: string
  status_code_counts :: "int \<rightharpoonup> int"
  user_agent_counts :: "string \<rightharpoonup> int"
  path_counts :: "string \<rightharpoonup> int"
  ai_crawler_types :: "string \<rightharpoonup> int"
  average_response_time :: real
  requests_by_hour :: "string \<rightharpoonup> int"

record MetricsCollector =
  metrics :: Metrics
  response_times :: "real list"

text \<open>\<^verbatim>\<open>MetricsCollector.__init__\<close>; the clock reading is a parameter.\<close>

definition MetricsCollector_init :: "string \<Rightarrow> MetricsCollector" where
  "MetricsCollector_init now =
     \<lparr>metrics =
        \<lparr>total_requests = 0, ai_crawler_requests = 0, proxy_requests = 0,
         error_requests = 0, start_time = now, last_request_time = [],
         status_code_counts = Map.empty, user_agent_counts = Map.empty,
         path_counts = Map.empty, ai_crawler_types = Map.empty,
         average_response_time = 0, requests_by_hour = Map.empty\<rparr>,
      response_times = []\<rparr>"

text \<open>\<^verbatim>\<open>d[k] = d.get(k, 0) + 1\<close>\<close>

definition dict_incr :: "('k \<rightharpoonup> int) \<Rightarrow> 'k \<Rightarrow> ('k \<rightharpoonup> int)" where
  "dict_incr d k = d(k \<mapsto> (case d k of Some n \<Rightarrow> n | None \<Rightarrow> 0) + 1)"

text \<open>\<^verbatim>\<open>s.replace('Z', '+00:00')\<close>\<close>

definition replace_Z :: "string \<Rightarrow> string" where
  "replace_Z s = concat (map (\<lambda>c. if c = CHR ''Z'' then ''+00:00'' else [c]) s)"

text \<open>
  The loop \<^verbatim>\<open>for crawler in AI_CRAWLERS: if crawler in log_entry.user_agent: ...; break\<close>
  acts on the first token of the list that occurs in the user agent, if there is one.
\<close>

definition first_crawler :: "string \<Rightarrow> string option" where
  "first_crawler ua = find (\<lambda>crawler. sublist crawler ua) AI_CRAWLERS"

text \<open>
  \<^verbatim>\<open>MetricsCollector.record_request\<close>. The library call
  \<^verbatim>\<open>datetime.fromisoformat(s).strftime("%Y-%m-%d-%H")\<close> is the parameter \<open>hour_of\<close>:
  \<open>None\<close> where \<^verbatim>\<open>fromisoformat\<close> raises \<^verbatim>\<open>ValueError\<close>. The assignments made before
  the raise stay in the collector, as they do in the object.
\<close>

definition record_request ::
  "(string \<Rightarrow> string option) \<Rightarrow> LogEntry \<Rightarrow> real \<Rightarrow> MetricsCollector \<Rightarrow>
   (py_exception + unit) \<times> MetricsCollector" where
  "record_request hour_of log_entry response_time self =
     (let m0 = metrics self;
          m1 = m0\<lparr>total_requests := total_requests m0 + 1,
                  last_request_time := timestamp log_entry,
                  status_code_counts :=
                    dict_incr (status_code_counts m0) (status_code log_entry),
                  path_counts := dict_incr (path_counts m0) (path log_entry)\<rparr>
      in case hour_of (replace_Z (timestamp log_entry)) of
        None \<Rightarrow>
          (Inl (ValueError (replace_Z (timestamp log_entry))), self\<lparr>metrics := m1\<rparr>)
      | Some hour_key \<Rightarrow>
         (let m2 = m1\<lparr>requests_by_hour := dict_incr (requests_by_hour m1) hour_key\<rparr>;
              ua = (if length (user_agent log_entry) > 100
                    then take 100 (user_agent log_entry) else user_agent log_entry);
              m3 = m2\<lparr>user_agent_counts := dict_incr (user_agent_counts m2) ua\<rparr>;
              m4 = (if is_ai_crawler_flag log_entry
                    then m3\<lparr>ai_crawler_requests := ai_crawler_requests m3 + 1,
                            ai_crawler_types :=
                              (case first_crawler (user_agent log_entry) of
                                 Some crawler \<Rightarrow> dict_incr (ai_crawler_types m3) crawler
                               | None \<Rightarrow> ai_crawler_types m3)\<rparr>
                    else m3\<lparr>proxy_requests := proxy_requests m3 + 1\<rparr>);
              m5 = (if status_code log_entry \<ge> 400
                    then m4\<lparr>error_requests := error_requests m4 + 1\<rparr> else m4);
              rts = response_times self @ [response_time];
              rts' = (if length rts > 1000 then drop 1 rts else rts);
              m6 = (if rts' \<noteq> []
                    then m5\<lparr>average_response_time := sum_list rts' / real (length rts')\<rparr>
                    else m5)
          in (Inr (), \<lparr>metrics = m6, response_times = rts'\<rparr>)))"

text \<open>
  A caller that makes the calls of a list one after the other on the same collector and
  keeps going when a call raises; the outcomes of the calls are collected in order.
\<close>

fun record_requests ::
  "(string \<Rightarrow> string option) \<Rightarrow> (LogEntry \<times> real) list \<Rightarrow> MetricsCollector \<Rightarrow>
   (py_exception + unit) list \<times> MetricsCollector" where
  "record_requests hour_of [] self = ([], self)"
| "record_requests hour_of ((log_entry, response_time) # calls) self =
     (case record_request hour_of log_entry response_time self of
        (outcome, self') \<Rightarrow>
          (case record_requests hour_of calls self' of
             (outcomes, self'') \<Rightarrow> (outcome # outcomes, self'')))"

section \<open>Notions used to state the results\<close>

text \<open>What one call of \<^const>\<open>forward_log\<close> prints, by the outcome of its POST.\<close>

fun sink_diagnostics :: "sink_outcome \<Rightarrow> diagnostic list" where
  "sink_diagnostics (SinkRaises e) = [FailedToForwardLog e]"
| "sink_diagnostics (SinkResponds status txt) =
     (if \<not> (200 \<le> status \<and> status < 300)
      then LogNonSuccessStatus status #
           (case txt of Inl e \<Rightarrow> [FailedToForwardLog e] | Inr t \<Rightarrow> [LogErrorResponse t])
      else [])"

text \<open>The delivery of a log entry failed: the POST raised, or the answer was not a 2xx.\<close>

fun delivery_failed :: "sink_outcome \<Rightarrow> bool" where
  "delivery_failed (SinkRaises e) = True"
| "delivery_failed (SinkResponds status txt) = (\<not> (200 \<le> status \<and> status < 300))"

definition posts :: "event list \<Rightarrow> nat" where
  "posts tr = length (filter is_LogPostAttempted tr)"

definition origin_requests :: "event list \<Rightarrow> nat" where
  "origin_requests tr = length (filter is_OriginRequested tr)"

text \<open>The events of one call of \<^const>\<open>forward_log\<close> made after \<open>n\<close> earlier POSTs.\<close>

definition log_events :: "(nat \<Rightarrow> sink_outcome) \<Rightarrow> nat \<Rightarrow> LogEntry \<Rightarrow> event list" where
  "log_events sink n e = LogPostAttempted e # map Printed (sink_diagnostics (sink n))"

text \<open>The fixed responses of the two branches of the handler.\<close>

definition synthetic_response :: response where
  "synthetic_response =
     \<lparr>statusCode = 200, headers = [(''Content-Type'', ''text/html; charset=utf-8'')],
      body = response_content\<rparr>"

definition bad_gateway :: response where
  "bad_gateway =
     \<lparr>statusCode = 502, headers = [(''Content-Type'', ''text/plain'')],
      body = ''Failed to fetch from origin''\<rparr>"

text \<open>Reading the body of the incoming request raises.\<close>

definition body_read_raises :: "request \<Rightarrow> bool" where
  "body_read_raises request = (case r_body request of Some (Inl e) \<Rightarrow> True | _ \<Rightarrow> False)"

text \<open>
  Forwarding to the origin fails: the body of the incoming request cannot be read, the
  request to the origin raises (a timeout is one way), or reading the origin's answer
  raises.
\<close>

definition origin_fetch_fails :: "request \<Rightarrow> origin_outcome \<Rightarrow> bool" where
  "origin_fetch_fails request origin =
     (body_read_raises request \<or>
      (case origin of OriginRaises e \<Rightarrow> True | OriginResponds status hs txt \<Rightarrow> isl txt))"

text \<open>
  The response of the handler as a function of the request and of what the origin does;
  \<open>fst_handle_request\<close> below proves that the handler returns it whenever the client
  address can be read.
\<close>

definition handler_response :: "request \<Rightarrow> origin_outcome \<Rightarrow> response" where
  "handler_response request origin =
     (if is_ai_crawler (request_user_agent request) then synthetic_response
      else if body_read_raises request then bad_gateway
      else (case origin of
              OriginRaises e \<Rightarrow> bad_gateway
            | OriginResponds status hs txt \<Rightarrow>
                (case txt of
                   Inl e \<Rightarrow> bad_gateway
                 | Inr b \<Rightarrow> \<lparr>statusCode = status, headers = dict_of hs, body = b\<rparr>)))"

text \<open>The data and the event of the request the proxy sends to the origin.\<close>

definition forwarded_data :: "request \<Rightarrow> string option" where
  "forwarded_data request = (case r_body request of Some (Inr d) \<Rightarrow> Some d | _ \<Rightarrow> None)"

definition origin_request_event :: "request \<Rightarrow> event" where
  "origin_request_event request =
     OriginRequested (r_method request) (''http://www.mysite.com'' @ r_path request)
       (dict_of (r_headers request)) (forwarded_data request)"

text \<open>A log service that answers every POST the same way.\<close>

definition sink_always :: "sink_outcome \<Rightarrow> nat \<Rightarrow> sink_outcome" where
  "sink_always outcome n = outcome"

text \<open>Python's \<^verbatim>\<open>str.lower\<close> on ASCII.\<close>

definition ascii_lower :: "char \<Rightarrow> char" where
  "ascii_lower c =
     (case map_of (zip ''ABCDEFGHIJKLMNOPQRSTUVWXYZ'' ''abcdefghijklmnopqrstuvwxyz'') c of
        Some l \<Rightarrow> l
      | None \<Rightarrow> c)"

text \<open>
  A GET of \<^verbatim>\<open>/article\<close> with the header set of a browser and the given user agent, used
  to evaluate the handler on concrete input.
\<close>

definition article_request :: "string \<Rightarrow> request" where
  "article_request ua =
     \<lparr>r_method = ''GET'', r_url = ''http://edge.example/article'', r_path = ''/article'',
      r_headers = [(''User-Agent'', ua), (''accept'', ''text/html''),
                   (''accept-language'', ''en-US,en;q=0.9''), (''accept-encoding'', ''gzip'')],
      r_client = ClientHost ''203.0.113.7'', r_body = Some (Inr [])\<rparr>"

definition article_context :: "string \<Rightarrow> RequestContext" where
  "article_context ua =
     \<lparr>ctx_user_agent = ua, ctx_headers = r_headers (article_request ua),
      ctx_path = ''/article'', ctx_ip = ''203.0.113.7'', ctx_timestamp = 1700000000,
      ctx_is_html_request = True, ctx_requested_assets = []\<rparr>"

text \<open>
  A stand-in for \<^verbatim>\<open>datetime.fromisoformat(s).strftime("%Y-%m-%d-%H")\<close>, used only to
  evaluate \<^const>\<open>record_request\<close> on concrete input: it reads the hour key off a string
  laid out as \<^verbatim>\<open>YYYY-MM-DDxHH...\<close> and rejects every other string.
\<close>

definition is_digit :: "char \<Rightarrow> bool" where
  "is_digit c = (c \<in> set ''0123456789'')"

definition iso_hour_key :: "string \<Rightarrow> string option" where
  "iso_hour_key s =
     (if 13 \<le> length s \<and> list_all is_digit (take 4 s) \<and> s ! 4 = CHR ''-'' \<and>
         list_all is_digit (take 2 (drop 5 s)) \<and> s ! 7 = CHR ''-'' \<and>
         list_all is_digit (take 2 (drop 8 s)) \<and> list_all is_digit (take 2 (drop 11 s))
      then Some (take 10 s @ ''-'' @ take 2 (drop 11 s))
      else None)"

definition log_entry_of :: "string \<Rightarrow> string \<Rightarrow> int \<Rightarrow> LogEntry" where
  "log_entry_of ts ua status =
     \<lparr>timestamp = ts, http_method = ''GET'', path = ''/article'', user_agent = ua,
      is_ai_crawler_flag = is_ai_crawler ua, status_code = status,
      remote_addr = ''203.0.113.7'', referer = []\<rparr>"

section \<open>Results\<close>

subsection \<open>Traces\<close>

lemma posts_simps [simp]:
  "posts [] = 0"
  "posts (tr @ tr') = posts tr + posts tr'"
  "posts (Printed d # tr) = posts tr"
  "posts (OriginRequested m u h b # tr) = posts tr"
  "posts (LogPostAttempted e # tr) = Suc (posts tr)"
  "posts (map Printed ds) = 0"
  by (simp_all add: posts_def filter_map o_def)

lemma origin_requests_simps [simp]:
  "origin_requests [] = 0"
  "origin_requests (tr @ tr') = origin_requests tr + origin_requests tr'"
  "origin_requests (Printed d # tr) = origin_requests tr"
  "origin_requests (OriginRequested m u h b # tr) = Suc (origin_requests tr)"
  "origin_requests (LogPostAttempted e # tr) = origin_requests tr"
  "origin_requests (map Printed ds) = 0"
  by (simp_all add: origin_requests_def filter_map o_def)

lemma posts_log_events [simp]: "posts (log_events sink n e) = 1"
  by (simp add: log_events_def)

lemma origin_requests_log_events [simp]: "origin_requests (log_events sink n e) = 0"
  by (simp add: log_events_def)

lemma origin_requests_event [simp]:
  "origin_requests (origin_request_event request # tr) = Suc (origin_requests tr)"
  by (simp add: origin_request_event_def)

lemma posts_origin_request_event [simp]:
  "posts (origin_request_event request # tr) = posts tr"
  by (simp add: origin_request_event_def)

subsection \<open>Log forwarding\<close>

lemma forward_log_eq:
  "forward_log sink e tr = (Inr (), tr @ log_events sink (posts tr) e)"
  by (cases "sink (length (filter is_LogPostAttempted tr))")
     (auto simp: forward_log_def forward_log_body_def try_except_def bind_def session_post_def
        print_def emit_def ret_def raise_def response_text_def log_events_def posts_def
        split: sum.splits)

lemma delivery_failed_diagnostics: "delivery_failed out \<longleftrightarrow> sink_diagnostics out \<noteq> []"
  by (cases out) auto

subsection \<open>Signature matching\<close>

lemma is_ai_crawler_iff:
  "is_ai_crawler ua \<longleftrightarrow> (\<exists>pre crawler post. crawler \<in> set AI_CRAWLERS \<and> ua = pre @ crawler @ post)"
  by (auto simp add: is_ai_crawler_def list_ex_iff sublist_def)

lemma first_crawler_None: "first_crawler ua = None \<longleftrightarrow> \<not> is_ai_crawler ua"
  by (auto simp add: first_crawler_def is_ai_crawler_def find_None_iff list_ex_iff)

subsection \<open>Dictionaries of headers\<close>

lemma dict_of_distinct_keys: "distinct (map fst (dict_of hs))"
  by (induction hs) (auto simp: distinct_map_filter)

lemma dict_of_unchanged: "distinct (map fst hs) \<Longrightarrow> dict_of hs = hs"
proof (induction hs)
  case Nil
  then show ?case by simp
next
  case (Cons h hs)
  then have "filter (\<lambda>h'. fst h' \<noteq> fst h) hs = hs"
    by (auto simp: filter_id_conv image_iff)
  with Cons show ?case by simp
qed

lemma map_of_filter_other:
  "k \<noteq> k' \<Longrightarrow> map_of (filter (\<lambda>h'. fst h' \<noteq> k') hs) k = map_of hs k"
  by (induction hs) auto

lemma map_of_dict_of: "map_of (dict_of hs) = map_of hs"
proof (induction hs)
  case Nil
  then show ?case by simp
next
  case (Cons h hs)
  show ?case
  proof
    fix k
    show "map_of (dict_of (h # hs)) k = map_of (h # hs) k"
      using Cons by (cases h) (simp add: map_of_filter_other)
  qed
qed

subsection \<open>The handler, case by case\<close>

lemma rstrip_origin: "rstrip_slash ORIGIN_URL = ''http://www.mysite.com''"
  by (simp add: rstrip_slash_def ORIGIN_URL_def)

lemmas io_defs = try_except_def bind_def print_def emit_def ret_def raise_def
  response_text_def request_body_def session_request_def from_result_def

lemma handle_client_none:
  assumes "r_client request = ClientNone"
  shows "handle_request now origin sink request tr =
     (Inl (AttributeError ''NoneType object has no attribute host''), tr)"
  using assms by (simp add: handle_request_def Let_def io_defs request_remote_addr_def)

lemma request_remote_addr_cases:
  "(\<exists>addr. request_remote_addr request = Inr addr) \<longleftrightarrow> r_client request \<noteq> ClientNone"
  by (cases "r_client request") (simp_all add: request_remote_addr_def)

lemma handle_crawler:
  assumes "is_ai_crawler (request_user_agent request)"
    and "request_remote_addr request = Inr addr"
  shows "handle_request now origin sink request tr =
     (Inr synthetic_response,
      tr @ Printed (AICrawlerDetected (request_user_agent request) addr (r_path request)) #
      log_events sink (posts tr) (request_log_entry now request addr))"
  using assms
  by (simp add: handle_request_def Let_def forward_log_eq io_defs synthetic_response_def
      request_log_entry_def)

lemma handle_body_raises:
  assumes "\<not> is_ai_crawler (request_user_agent request)"
    and "request_remote_addr request = Inr addr"
    and "r_body request = Some (Inl e)"
  shows "handle_request now origin sink request tr =
     (Inr bad_gateway,
      tr @ Printed (FailedToFetchFromOrigin e) #
      log_events sink (posts tr) ((request_log_entry now request addr)\<lparr>status_code := 502\<rparr>))"
  using assms
  by (simp add: handle_request_def proxy_body_def Let_def forward_log_eq io_defs
      bad_gateway_def)

lemma handle_origin_raises:
  assumes "\<not> is_ai_crawler (request_user_agent request)"
    and "request_remote_addr request = Inr addr"
    and "\<not> body_read_raises request"
    and "origin = OriginRaises e"
  shows "handle_request now origin sink request tr =
     (Inr bad_gateway,
      tr @ origin_request_event request # Printed (FailedToFetchFromOrigin e) #
      log_events sink (posts tr) ((request_log_entry now request addr)\<lparr>status_code := 502\<rparr>))"
  using assms
  by (auto simp add: handle_request_def proxy_body_def Let_def forward_log_eq io_defs
      bad_gateway_def rstrip_origin origin_request_event_def forwarded_data_def
      body_read_raises_def split: option.splits sum.splits)

lemma handle_read_raises:
  assumes "\<not> is_ai_crawler (request_user_agent request)"
    and "request_remote_addr request = Inr addr"
    and "\<not> body_read_raises request"
    and "origin = OriginResponds st hs (Inl e)"
  shows "handle_request now origin sink request tr =
     (Inr bad_gateway,
      tr @ origin_request_event request #
      Printed (ProxiedRequest (r_method request) (r_path request) st) #
      log_events sink (posts tr) ((request_log_entry now request addr)\<lparr>status_code := st\<rparr>) @
      Printed (FailedToFetchFromOrigin e) #
      log_events sink (Suc (posts tr))
        ((request_log_entry now request addr)\<lparr>status_code := 502\<rparr>))"
  using assms
  by (auto simp add: handle_request_def proxy_body_def Let_def forward_log_eq io_defs
      bad_gateway_def rstrip_origin origin_request_event_def forwarded_data_def
      body_read_raises_def split: option.splits sum.splits)

lemma handle_relayed:
  assumes "\<not> is_ai_crawler (request_user_agent request)"
    and "request_remote_addr request = Inr addr"
    and "\<not> body_read_raises request"
    and "origin = OriginResponds st hs (Inr b)"
  shows "handle_request now origin sink request tr =
     (Inr \<lparr>statusCode = st, headers = dict_of hs, body = b\<rparr>,
      tr @ origin_request_event request #
      Printed (ProxiedRequest (r_method request) (r_path request) st) #
      log_events sink (posts tr) ((request_log_entry now request addr)\<lparr>status_code := st\<rparr>))"
  using assms
  by (auto simp add: handle_request_def proxy_body_def Let_def forward_log_eq io_defs
      rstrip_origin origin_request_event_def forwarded_data_def
      body_read_raises_def split: option.splits sum.splits)

lemma body_read_raisesD: "body_read_raises request \<Longrightarrow> \<exists>e. r_body request = Some (Inl e)"
  by (auto simp: body_read_raises_def split: option.splits sum.splits)

lemma fst_handle_request:
  assumes addr: "request_remote_addr request = Inr addr"
  shows "fst (handle_request now origin sink request tr) =
    Inr (handler_response request origin)"
proof (cases "is_ai_crawler (request_user_agent request)")
  case True
  then show ?thesis by (simp add: handle_crawler [OF _ addr] handler_response_def)
next
  case False
  then have no_sig: "\<not> is_ai_crawler (request_user_agent request)" .
  show ?thesis
  proof (cases "body_read_raises request")
    case True
    then obtain e where "r_body request = Some (Inl e)" by (auto dest: body_read_raisesD)
    with no_sig True show ?thesis
      by (simp add: handle_body_raises [OF _ addr] handler_response_def)
  next
    case False
    then have body_ok: "\<not> body_read_raises request" .
    show ?thesis
    proof (cases origin)
      case (OriginRaises e)
      with no_sig body_ok show ?thesis
        by (simp add: handle_origin_raises [OF _ addr] handler_response_def)
    next
      case (OriginResponds st hs rd)
      with no_sig body_ok show ?thesis
        by (cases rd)
           (simp_all add: handle_read_raises [OF _ addr] handle_relayed [OF _ addr]
              handler_response_def)
    qed
  qed
qed

text \<open>
  The log service never changes what the handler returns, whether that is a response or
  an exception; and the handler returns a response, with status 200, 502, 500 or the
  status the origin answered, whenever the client address can be read.
\<close>

lemma handler_ignores_log_service:
  "handle_request now origin sink request tr = (r, tr1) \<Longrightarrow>
   handle_request now origin sink' request tr = (r', tr2) \<Longrightarrow> r = r'"
proof (cases "r_client request = ClientNone")
  case True
  assume "handle_request now origin sink request tr = (r, tr1)"
    and "handle_request now origin sink' request tr = (r', tr2)"
  with True show ?thesis by (simp add: handle_client_none)
next
  case False
  assume runs: "handle_request now origin sink request tr = (r, tr1)"
    "handle_request now origin sink' request tr = (r', tr2)"
  from False obtain addr where addr: "request_remote_addr request = Inr addr"
    using request_remote_addr_cases by blast
  from fst_handle_request [OF addr, of now origin sink tr]
    fst_handle_request [OF addr, of now origin sink' tr] runs
  show ?thesis by simp
qed

lemma handler_returns_when_client_readable:
  assumes "request_remote_addr request = Inr addr"
  shows "\<exists>r. fst (handle_request now origin sink request tr) = Inr r \<and>
        (statusCode r = 200 \<or> statusCode r = 502 \<or> statusCode r = 500 \<or>
         (\<exists>hs rd. origin = OriginResponds (statusCode r) hs rd))"
proof -
  have "statusCode (handler_response request origin) = 200 \<or>
        statusCode (handler_response request origin) = 502 \<or>
        statusCode (handler_response request origin) = 500 \<or>
        (\<exists>hs rd. origin = OriginResponds (statusCode (handler_response request origin)) hs rd)"
    by (simp add: handler_response_def synthetic_response_def bad_gateway_def
        split: origin_outcome.splits sum.splits)
  then show ?thesis by (simp add: fst_handle_request [OF assms])
qed

lemma forward_log_swallows:
  "fst (forward_log sink e tr) = Inr () \<and>
   snd (forward_log sink e tr) =
     tr @ LogPostAttempted e # map Printed (sink_diagnostics (sink (posts tr))) \<and>
   delivery_failed (sink (posts tr)) = (sink_diagnostics (sink (posts tr)) \<noteq> [])"
  by (simp add: forward_log_eq log_events_def delivery_failed_diagnostics)

subsection \<open>The dispatcher on a signature hit and on an origin failure\<close>



text \<open>
  Claim C2. When the user agent matches no known signature and forwarding to the origin
  fails (the request raises, a timeout included, or the answer cannot be read, or the
  incoming body cannot be read), the handler returns status 502 with the plain-text body
  \<^verbatim>\<open>Failed to fetch from origin\<close>, has sent at most one request to the origin, and
  has attempted to post the log entry with status 502. The request is one whose client
  address the handler can read (\<open>addr\<close>).
\<close>

theorem origin_failure_returns_502:
  assumes "\<not> is_ai_crawler (request_user_agent request)"
    and "origin_fetch_fails request origin"
    and "request_remote_addr request = Inr addr"
  shows "fst (handle_request now origin sink request tr) =
           Inr \<lparr>statusCode = 502, headers = [(''Content-Type'', ''text/plain'')],
                body = ''Failed to fetch from origin''\<rparr> \<and>
         origin_requests (snd (handle_request now origin sink request tr)) \<le>
           origin_requests tr + 1 \<and>
         LogPostAttempted ((request_log_entry now request addr)\<lparr>status_code := 502\<rparr>) \<in>
           set (snd (handle_request now origin sink request tr))"
proof (cases "body_read_raises request")
  case True
  then obtain e where "r_body request = Some (Inl e)" by (auto dest: body_read_raisesD)
  then show ?thesis
    by (simp add: handle_body_raises [OF assms(1,3)] bad_gateway_def log_events_def)
next
  case False
  then have body_ok: "\<not> body_read_raises request" .
  show ?thesis
  proof (cases origin)
    case (OriginRaises e)
    then show ?thesis
      by (simp add: handle_origin_raises [OF assms(1,3) body_ok] bad_gateway_def
          log_events_def)
  next
    case (OriginResponds st hs rd)
    with assms(2) body_ok obtain e where "rd = Inl e"
      by (cases rd) (auto simp: origin_fetch_fails_def)
    with OriginResponds show ?thesis
      by (simp add: handle_read_raises [OF assms(1,3) body_ok] bad_gateway_def
          log_events_def)
  qed
qed

text \<open>The theorem at a browser request whose origin fetch times out.\<close>

theorem origin_failure_returns_502_witness:
  "\<not> is_ai_crawler (request_user_agent (article_request ''Mozilla/5.0 Chrome/119.0'')) \<and>
   origin_fetch_fails (article_request ''Mozilla/5.0 Chrome/119.0'') (OriginRaises TimeoutError) \<and>
   request_remote_addr (article_request ''Mozilla/5.0 Chrome/119.0'') = Inr ''203.0.113.7'' \<and>
   handle_request ''2024-05-01T10:00:00+00:00'' (OriginRaises TimeoutError)
      (sink_always (SinkResponds 200 (Inr []))) (article_request ''Mozilla/5.0 Chrome/119.0'') [] =
     (Inr \<lparr>statusCode = 502, headers = [(''Content-Type'', ''text/plain'')],
                body = ''Failed to fetch from origin''\<rparr>,
      [origin_request_event (article_request ''Mozilla/5.0 Chrome/119.0''),
       Printed (FailedToFetchFromOrigin TimeoutError),
       LogPostAttempted ((request_log_entry ''2024-05-01T10:00:00+00:00''
          (article_request ''Mozilla/5.0 Chrome/119.0'') ''203.0.113.7'')\<lparr>status_code := 502\<rparr>)])"
proof -
  have h1: "\<not> is_ai_crawler (request_user_agent (article_request ''Mozilla/5.0 Chrome/119.0''))"
    by (simp add: request_user_agent_def article_request_def headers_get_def
        is_ai_crawler_def AI_CRAWLERS_def sublist_code)
  have h2: "origin_fetch_fails (article_request ''Mozilla/5.0 Chrome/119.0'')
      (OriginRaises TimeoutError)"
    by (simp add: origin_fetch_fails_def)
  have h3: "request_remote_addr (article_request ''Mozilla/5.0 Chrome/119.0'') =
      Inr ''203.0.113.7''"
    by (simp add: request_remote_addr_def article_request_def)
  have body_ok: "\<not> body_read_raises (article_request ''Mozilla/5.0 Chrome/119.0'')"
    by (simp add: body_read_raises_def article_request_def)
  show ?thesis
    using h1 h2 h3
      origin_failure_returns_502 [OF h1 h2 h3, of "''2024-05-01T10:00:00+00:00''"
         "sink_always (SinkResponds 200 (Inr []))" "[]"]
    by (simp add: handle_origin_raises [OF h1 h3 body_ok] bad_gateway_def log_events_def
        sink_always_def)
qed

subsection \<open>Requests without a signature\<close>

text \<open>
  Claim C3 holds of the verdict, of the forwarding and of the status, and fails on the
  headers: the handler returns \<^verbatim>\<open>dict(origin_response.headers)\<close>, which keeps one value
  per header name. When the origin answers a browser request with two \<^verbatim>\<open>Set-Cookie\<close>
  headers, both classifiers say "not a crawler", the request is forwarded and the status
  relayed, and the response carries the first \<^verbatim>\<open>Set-Cookie\<close> only.
\<close>

theorem proxy_drops_repeated_header:
  "\<not> is_ai_crawler (request_user_agent (article_request ''Mozilla/5.0 Chrome/119.0'')) \<and>
   \<not> is_ai_crawler_by_heuristics (article_context ''Mozilla/5.0 Chrome/119.0'')
        get_default_heuristic_config \<and>
   handle_request ''2024-05-01T10:00:00+00:00''
     (OriginResponds 200 [(''Set-Cookie'', ''a=1''), (''Set-Cookie'', ''b=2'')]
        (Inr ''origin page''))
     (sink_always (SinkResponds 200 (Inr [])))
     (article_request ''Mozilla/5.0 Chrome/119.0'') [] =
   (Inr \<lparr>statusCode = 200, headers = [(''Set-Cookie'', ''a=1'')], body = ''origin page''\<rparr>,
    [OriginRequested ''GET'' ''http://www.mysite.com/article''
       (r_headers (article_request ''Mozilla/5.0 Chrome/119.0'')) (Some []),
     Printed (ProxiedRequest ''GET'' ''/article'' 200),
     LogPostAttempted
       \<lparr>timestamp = ''2024-05-01T10:00:00+00:00'', http_method = ''GET'', path = ''/article'',
        user_agent = ''Mozilla/5.0 Chrome/119.0'', is_ai_crawler_flag = False,
        status_code = 200, remote_addr = ''203.0.113.7'', referer = []\<rparr>])"
proof -
  have ua: "request_user_agent (article_request ''Mozilla/5.0 Chrome/119.0'') =
      ''Mozilla/5.0 Chrome/119.0''"
    by (simp add: request_user_agent_def article_request_def headers_get_def)
  have miss: "\<not> is_ai_crawler ''Mozilla/5.0 Chrome/119.0''"
    by (simp add: is_ai_crawler_def AI_CRAWLERS_def sublist_code)
  have h1: "\<not> is_ai_crawler (request_user_agent (article_request ''Mozilla/5.0 Chrome/119.0''))"
    using miss ua by simp
  have h2: "request_remote_addr (article_request ''Mozilla/5.0 Chrome/119.0'') =
      Inr ''203.0.113.7''"
    by (simp add: request_remote_addr_def article_request_def)
  have h3: "\<not> body_read_raises (article_request ''Mozilla/5.0 Chrome/119.0'')"
    by (simp add: body_read_raises_def article_request_def)
  have sent: "dict_of (r_headers (article_request ''Mozilla/5.0 Chrome/119.0'')) =
      r_headers (article_request ''Mozilla/5.0 Chrome/119.0'')"
    by (rule dict_of_unchanged) (simp add: article_request_def)
  have run: "handle_request ''2024-05-01T10:00:00+00:00''
     (OriginResponds 200 [(''Set-Cookie'', ''a=1''), (''Set-Cookie'', ''b=2'')]
        (Inr ''origin page''))
     (sink_always (SinkResponds 200 (Inr [])))
     (article_request ''Mozilla/5.0 Chrome/119.0'') [] =
   (Inr \<lparr>statusCode = 200, headers = [(''Set-Cookie'', ''a=1'')], body = ''origin page''\<rparr>,
    [OriginRequested ''GET'' ''http://www.mysite.com/article''
       (r_headers (article_request ''Mozilla/5.0 Chrome/119.0'')) (Some []),
     Printed (ProxiedRequest ''GET'' ''/article'' 200),
     LogPostAttempted
       \<lparr>timestamp = ''2024-05-01T10:00:00+00:00'', http_method = ''GET'', path = ''/article'',
        user_agent = ''Mozilla/5.0 Chrome/119.0'', is_ai_crawler_flag = False,
        status_code = 200, remote_addr = ''203.0.113.7'', referer = []\<rparr>])"
    using miss
    by (simp add: handle_relayed [OF h1 h2 h3 refl] origin_request_event_def log_events_def
        sink_always_def request_log_entry_def ua forwarded_data_def headers_get_def sent)
       (simp add: article_request_def)
  show ?thesis
    using h1 run by (simp add: is_ai_crawler_by_heuristics_def)
qed

subsection \<open>The heuristics\<close>

text \<open>
  Claim C4, as stated, fails: the rate heuristic does not fire at the default threshold,
  the heuristic classifier says "not a crawler", and the 61st request of one address
  without a known signature, made after 60 that were forwarded, is relayed to the origin
  like the others.
\<close>

theorem rate_heuristic_counterexample:
  "\<not> has_high_request_rate ''203.0.113.7'' create_ip_request_tracker
       (max_requests_per_minute get_default_heuristic_config) \<and>
   \<not> is_ai_crawler_by_heuristics (article_context ''Mozilla/5.0 Chrome/119.0'')
       get_default_heuristic_config \<and>
   fst (handle_request ''2024-05-01T10:00:59+00:00''
          (OriginResponds 200 [] (Inr ''origin page''))
          (sink_always (SinkResponds 200 (Inr [])))
          (article_request ''Mozilla/5.0 Chrome/119.0'')
          (replicate 60 (origin_request_event (article_request ''Mozilla/5.0 Chrome/119.0'')))) =
     Inr \<lparr>statusCode = 200, headers = [], body = ''origin page''\<rparr>"
proof -
  have h1: "\<not> is_ai_crawler (request_user_agent (article_request ''Mozilla/5.0 Chrome/119.0''))"
    by (simp add: request_user_agent_def article_request_def headers_get_def
        is_ai_crawler_def AI_CRAWLERS_def sublist_code)
  have h2: "request_remote_addr (article_request ''Mozilla/5.0 Chrome/119.0'') =
      Inr ''203.0.113.7''"
    by (simp add: request_remote_addr_def article_request_def)
  have h3: "\<not> body_read_raises (article_request ''Mozilla/5.0 Chrome/119.0'')"
    by (simp add: body_read_raises_def article_request_def)
  show ?thesis
    by (simp add: has_high_request_rate_def is_ai_crawler_by_heuristics_def
        handle_relayed [OF h1 h2 h3 refl])
qed

text \<open>
  Claim C4, amended. The request-rate heuristic is a placeholder: for every address,
  tracker and threshold (default 60) it does not fire, and the heuristic classifier
  returns \<open>False\<close>. For a request without a known signature whose client address the
  handler can read, whatever was handled before (\<open>tr\<close>): the handler returns a response
  and posts a log entry flagged "not a crawler" that carries the status of that
  response; it sends one request to the origin, the forwarded request, or none when the
  body of the incoming request cannot be read.
\<close>

theorem rate_heuristic_never_fires:
  assumes "\<not> is_ai_crawler (request_user_agent request)"
    and "request_remote_addr request = Inr addr"
  shows "\<not> has_high_request_rate ip tracker max_per_minute \<and>
         \<not> is_ai_crawler_by_heuristics ctx config \<and>
         max_requests_per_minute get_default_heuristic_config = 60 \<and>
         (\<exists>r. fst (handle_request now origin sink request tr) = Inr r \<and>
              LogPostAttempted
                ((request_log_entry now request addr)\<lparr>status_code := statusCode r\<rparr>)
                \<in> set (snd (handle_request now origin sink request tr)) \<and>
              \<not> is_ai_crawler_flag
                ((request_log_entry now request addr)\<lparr>status_code := statusCode r\<rparr>)) \<and>
         origin_requests (snd (handle_request now origin sink request tr)) =
           origin_requests tr + (if body_read_raises request then 0 else 1) \<and>
         (\<not> body_read_raises request \<longrightarrow>
            origin_request_event request \<in> set (snd (handle_request now origin sink request tr)))"
proof -
  have stubs: "\<not> has_high_request_rate ip tracker max_per_minute"
    "\<not> is_ai_crawler_by_heuristics ctx config"
    "max_requests_per_minute get_default_heuristic_config = 60"
    by (simp_all add: has_high_request_rate_def is_ai_crawler_by_heuristics_def
        get_default_heuristic_config_def HeuristicDetectionConfig_init_def)
  from assms(1) have flag: "\<not> is_ai_crawler_flag (request_log_entry now request addr)"
    by (simp add: request_log_entry_def)
  have run: "(\<exists>r. fst (handle_request now origin sink request tr) = Inr r \<and>
              LogPostAttempted
                ((request_log_entry now request addr)\<lparr>status_code := statusCode r\<rparr>)
                \<in> set (snd (handle_request now origin sink request tr)) \<and>
              \<not> is_ai_crawler_flag
                ((request_log_entry now request addr)\<lparr>status_code := statusCode r\<rparr>)) \<and>
         origin_requests (snd (handle_request now origin sink request tr)) =
           origin_requests tr + (if body_read_raises request then 0 else 1) \<and>
         (\<not> body_read_raises request \<longrightarrow>
            origin_request_event request \<in> set (snd (handle_request now origin sink request tr)))"
  proof (cases "body_read_raises request")
    case True
    then obtain e where "r_body request = Some (Inl e)" by (auto dest: body_read_raisesD)
    with True flag show ?thesis
      by (simp add: handle_body_raises [OF assms] bad_gateway_def log_events_def)
  next
    case False
    then have body_ok: "\<not> body_read_raises request" .
    show ?thesis
    proof (cases origin)
      case (OriginRaises e)
      with body_ok flag show ?thesis
        by (simp add: handle_origin_raises [OF assms body_ok] bad_gateway_def log_events_def)
    next
      case (OriginResponds st hs rd)
      with body_ok flag show ?thesis
        by (cases rd)
           (simp_all add: handle_read_raises [OF assms body_ok]
              handle_relayed [OF assms body_ok] bad_gateway_def log_events_def)
    qed
  qed
  with stubs show ?thesis by simp
qed

text \<open>The theorem at the 61st request of an address, after 60 forwarded ones.\<close>

theorem rate_heuristic_never_fires_witness:
  "\<not> is_ai_crawler (request_user_agent (article_request ''Mozilla/5.0 Chrome/119.0'')) \<and>
   request_remote_addr (article_request ''Mozilla/5.0 Chrome/119.0'') = Inr ''203.0.113.7'' \<and>
   \<not> body_read_raises (article_request ''Mozilla/5.0 Chrome/119.0'') \<and>
   \<not> has_high_request_rate ''203.0.113.7'' create_ip_request_tracker 60 \<and>
   origin_request_event (article_request ''Mozilla/5.0 Chrome/119.0'') \<in>
     set (snd (handle_request ''2024-05-01T10:00:59+00:00''
      (OriginResponds 200 [] (Inr ''origin page'')) (sink_always (SinkResponds 200 (Inr [])))
      (article_request ''Mozilla/5.0 Chrome/119.0'')
      (replicate 60 (origin_request_event (article_request ''Mozilla/5.0 Chrome/119.0''))))) \<and>
   origin_requests (snd (handle_request ''2024-05-01T10:00:59+00:00''
      (OriginResponds 200 [] (Inr ''origin page'')) (sink_always (SinkResponds 200 (Inr [])))
      (article_request ''Mozilla/5.0 Chrome/119.0'')
      (replicate 60 (origin_request_event (article_request ''Mozilla/5.0 Chrome/119.0''))))) = 61"
proof -
  have h1: "\<not> is_ai_crawler (request_user_agent (article_request ''Mozilla/5.0 Chrome/119.0''))"
    by (simp add: request_user_agent_def article_request_def headers_get_def
        is_ai_crawler_def AI_CRAWLERS_def sublist_code)
  have h2: "request_remote_addr (article_request ''Mozilla/5.0 Chrome/119.0'') =
      Inr ''203.0.113.7''"
    by (simp add: request_remote_addr_def article_request_def)
  have h3: "\<not> body_read_raises (article_request ''Mozilla/5.0 Chrome/119.0'')"
    by (simp add: body_read_raises_def article_request_def)
  have h4: "origin_requests
      (replicate 60 (origin_request_event (article_request ''Mozilla/5.0 Chrome/119.0''))) = 60"
    by (simp add: origin_requests_def origin_request_event_def)
  show ?thesis
    using h1 h2 h3 h4 rate_heuristic_never_fires [OF h1 h2, of "''203.0.113.7''"
      create_ip_request_tracker 60 "article_context ''Mozilla/5.0 Chrome/119.0''"
      get_default_heuristic_config "''2024-05-01T10:00:59+00:00''"
      "OriginResponds 200 [] (Inr ''origin page'')" "sink_always (SinkResponds 200 (Inr []))"
      "replicate 60 (origin_request_event (article_request ''Mozilla/5.0 Chrome/119.0''))"]
    by simp
qed

subsection \<open>The signature matcher\<close>

text \<open>
  Claim C5, as stated, fails: the matcher returns the same value, \<open>True\<close>, for two user
  agents whose first known crawler names differ, so what it returns is not the name.
\<close>

theorem signature_matcher_counterexample:
  "is_ai_crawler ''GPTBot/1.0'' = True \<and> is_ai_crawler ''ClaudeBot/1.0'' = True \<and>
   first_crawler ''GPTBot/1.0'' = Some ''GPTBot'' \<and>
   first_crawler ''ClaudeBot/1.0'' = Some ''ClaudeBot''"
  by (simp add: is_ai_crawler_def first_crawler_def AI_CRAWLERS_def sublist_code)

text \<open>
  Claim C5, amended. \<^const>\<open>is_ai_crawler\<close> returns a boolean: \<open>True\<close> exactly when some
  known token occurs as a substring of the user agent, that is exactly when there is a
  first known crawler name occurring in it, and \<open>False\<close> when no known token occurs.
\<close>

theorem signature_matcher_boolean:
  "is_ai_crawler ua =
     (\<exists>pre crawler post. crawler \<in> set AI_CRAWLERS \<and> ua = pre @ crawler @ post) \<and>
   is_ai_crawler ua = (first_crawler ua \<noteq> None)"
  using is_ai_crawler_iff [of ua] first_crawler_None [of ua] by simp

subsection \<open>The header heuristic\<close>

text \<open>
  Claim C6, as stated, fails: with the default required headers, a request with no
  header at all is not marked suspicious, and neither is one whose
  \<^verbatim>\<open>accept-language\<close> is the one-character \<^verbatim>\<open>*\<close>.
\<close>

theorem header_heuristic_counterexample:
  "required_headers get_default_heuristic_config =
     [''accept'', ''accept-language'', ''accept-encoding''] \<and>
   \<not> has_suspicious_headers [] (required_headers get_default_heuristic_config) \<and>
   int (length ''*'') < min_accept_language_length get_default_heuristic_config \<and>
   \<not> has_suspicious_headers
       [(''accept'', ''*/*''), (''accept-language'', ''*''), (''accept-encoding'', ''gzip'')]
       (required_headers get_default_heuristic_config)"
  by (simp add: has_suspicious_headers_def get_default_heuristic_config_def
      HeuristicDetectionConfig_init_def)

text \<open>
  Claim C6, amended. The header heuristic is a placeholder that marks no request
  suspicious, whatever the headers and the list of required headers; the default
  configuration holds the required headers accept, accept-language, accept-encoding and
  the minimum accept-language length 5, which no check consults.
\<close>

theorem header_heuristic_never_fires:
  "\<not> has_suspicious_headers hs required \<and>
   required_headers get_default_heuristic_config =
     [''accept'', ''accept-language'', ''accept-encoding''] \<and>
   min_accept_language_length get_default_heuristic_config = 5"
  by (simp add: has_suspicious_headers_def get_default_heuristic_config_def
      HeuristicDetectionConfig_init_def)

subsection \<open>Exceptions that leave the handler\<close>

text \<open>
  Claim C7 holds of the log service (\<open>forward_log_swallows\<close>,
  \<open>handler_ignores_log_service\<close>) and of every request whose client address can be read
  (\<open>handler_returns_when_client_readable\<close>), and fails when the request has the attribute
  \<^verbatim>\<open>client\<close> and it is \<^verbatim>\<open>None\<close>: \<^verbatim>\<open>request.client.host\<close> is read before the
  \<^verbatim>\<open>try\<close>, so the \<^verbatim>\<open>AttributeError\<close> leaves the handler, no response is returned and
  no log entry is posted.
\<close>

theorem handler_raises_when_client_is_none:
  "handle_request ''2024-05-01T10:00:00+00:00'' (OriginResponds 200 [] (Inr ''origin page''))
     (sink_always (SinkResponds 200 (Inr [])))
     ((article_request ''Mozilla/5.0 Chrome/119.0'')\<lparr>r_client := ClientNone\<rparr>) [] =
   (Inl (AttributeError ''NoneType object has no attribute host''), [])"
  by (simp add: handle_client_none)

subsection \<open>Case sensitivity\<close>

text \<open>
  Claim C9. The user agent \<^verbatim>\<open>gptbot/1.0\<close> contains the token \<^verbatim>\<open>GPTBot\<close> in lower
  case; \<^const>\<open>is_ai_crawler\<close> accepts \<^verbatim>\<open>GPTBot/1.0\<close> and rejects \<^verbatim>\<open>gptbot/1.0\<close>,
  and the handler forwards that request to the origin and relays the answer.
\<close>

theorem signature_matching_is_case_sensitive:
  "''GPTBot'' \<in> set AI_CRAWLERS \<and>
   sublist (map ascii_lower ''GPTBot'') ''gptbot/1.0'' \<and>
   is_ai_crawler ''GPTBot/1.0'' \<and>
   \<not> is_ai_crawler ''gptbot/1.0'' \<and>
   handle_request ''2024-05-01T10:00:00+00:00'' (OriginResponds 200 [] (Inr ''origin page''))
     (sink_always (SinkResponds 200 (Inr []))) (article_request ''gptbot/1.0'') [] =
   (Inr \<lparr>statusCode = 200, headers = [], body = ''origin page''\<rparr>,
    [OriginRequested ''GET'' ''http://www.mysite.com/article''
       (r_headers (article_request ''gptbot/1.0'')) (Some []),
     Printed (ProxiedRequest ''GET'' ''/article'' 200),
     LogPostAttempted
       \<lparr>timestamp = ''2024-05-01T10:00:00+00:00'', http_method = ''GET'', path = ''/article'',
        user_agent = ''gptbot/1.0'', is_ai_crawler_flag = False, status_code = 200,
        remote_addr = ''203.0.113.7'', referer = []\<rparr>])"
proof -
  have ua: "request_user_agent (article_request ''gptbot/1.0'') = ''gptbot/1.0''"
    by (simp add: request_user_agent_def article_request_def headers_get_def)
  have miss: "\<not> is_ai_crawler ''gptbot/1.0''"
    by (simp add: is_ai_crawler_def AI_CRAWLERS_def sublist_code)
  have hit: "is_ai_crawler ''GPTBot/1.0''"
    by (simp add: is_ai_crawler_def AI_CRAWLERS_def sublist_code)
  have low: "map ascii_lower ''GPTBot'' = ''gptbot''"
    by (simp add: ascii_lower_def)
  have h1: "\<not> is_ai_crawler (request_user_agent (article_request ''gptbot/1.0''))"
    using miss ua by simp
  have h2: "\<not> body_read_raises (article_request ''gptbot/1.0'')"
    by (simp add: body_read_raises_def article_request_def)
  have h3: "request_remote_addr (article_request ''gptbot/1.0'') = Inr ''203.0.113.7''"
    by (simp add: request_remote_addr_def article_request_def)
  have sent: "dict_of (r_headers (article_request ''gptbot/1.0'')) =
      r_headers (article_request ''gptbot/1.0'')"
    by (rule dict_of_unchanged) (simp add: article_request_def)
  have run: "handle_request ''2024-05-01T10:00:00+00:00'' (OriginResponds 200 [] (Inr ''origin page''))
     (sink_always (SinkResponds 200 (Inr []))) (article_request ''gptbot/1.0'') [] =
   (Inr \<lparr>statusCode = 200, headers = [], body = ''origin page''\<rparr>,
    [OriginRequested ''GET'' ''http://www.mysite.com/article''
       (r_headers (article_request ''gptbot/1.0'')) (Some []),
     Printed (ProxiedRequest ''GET'' ''/article'' 200),
     LogPostAttempted
       \<lparr>timestamp = ''2024-05-01T10:00:00+00:00'', http_method = ''GET'', path = ''/article'',
        user_agent = ''gptbot/1.0'', is_ai_crawler_flag = False, status_code = 200,
        remote_addr = ''203.0.113.7'', referer = []\<rparr>])"
    using miss
    by (simp add: handle_relayed [OF h1 h3 h2 refl] origin_request_event_def log_events_def
        sink_always_def request_log_entry_def ua forwarded_data_def headers_get_def sent)
       (simp add: article_request_def)
  have sub: "sublist ''gptbot'' ''gptbot/1.0''" by (simp add: sublist_code)
  show ?thesis using hit miss low run sub by (simp add: AI_CRAWLERS_def)
qed

subsection \<open>Metrics\<close>

lemma record_request_returns:
  assumes "hour_of (replace_Z (timestamp e)) = Some k"
  shows "fst (record_request hour_of e rt c) = Inr ()"
    and "total_requests (metrics (snd (record_request hour_of e rt c))) =
           total_requests (metrics c) + 1"
    and "ai_crawler_requests (metrics (snd (record_request hour_of e rt c))) +
         proxy_requests (metrics (snd (record_request hour_of e rt c))) =
           ai_crawler_requests (metrics c) + proxy_requests (metrics c) + 1"
    and "error_requests (metrics (snd (record_request hour_of e rt c))) =
           error_requests (metrics c) + (if status_code e \<ge> 400 then 1 else 0)"
  using assms by (simp_all add: record_request_def Let_def)

lemma record_request_raises:
  assumes "hour_of (replace_Z (timestamp e)) = None"
  shows "fst (record_request hour_of e rt c) = Inl (ValueError (replace_Z (timestamp e)))"
    and "total_requests (metrics (snd (record_request hour_of e rt c))) =
           total_requests (metrics c) + 1"
    and "ai_crawler_requests (metrics (snd (record_request hour_of e rt c))) =
           ai_crawler_requests (metrics c)"
    and "proxy_requests (metrics (snd (record_request hour_of e rt c))) =
           proxy_requests (metrics c)"
    and "error_requests (metrics (snd (record_request hour_of e rt c))) =
           error_requests (metrics c)"
  using assms by (simp_all add: record_request_def Let_def)

lemma record_request_outcome:
  "fst (record_request hour_of e rt c) = Inr () \<longleftrightarrow> hour_of (replace_Z (timestamp e)) \<noteq> None"
  by (cases "hour_of (replace_Z (timestamp e))")
     (simp_all add: record_request_def Let_def)

lemma record_requests_counters:
  assumes "record_requests hour_of calls c0 = (outcomes, c)"
    and "set outcomes \<subseteq> {Inr ()}"
  shows "total_requests (metrics c) = total_requests (metrics c0) + int (length calls) \<and>
         ai_crawler_requests (metrics c) + proxy_requests (metrics c) =
           ai_crawler_requests (metrics c0) + proxy_requests (metrics c0) + int (length calls) \<and>
         error_requests (metrics c) =
           error_requests (metrics c0) +
           int (length (filter (\<lambda>(e, rt). status_code e \<ge> 400) calls))"
  using assms
proof (induction calls arbitrary: c0 outcomes c)
  case Nil
  then show ?case by simp
next
  case (Cons call calls)
  obtain e rt where call: "call = (e, rt)" by (cases call)
  obtain out c1 where step: "record_request hour_of e rt c0 = (out, c1)"
    by (cases "record_request hour_of e rt c0")
  obtain outs c2 where rest: "record_requests hour_of calls c1 = (outs, c2)"
    by (cases "record_requests hour_of calls c1")
  from Cons.prems(1) call step rest have eqs: "outcomes = out # outs" "c = c2"
    by simp_all
  with Cons.prems(2) have out: "out = Inr ()" and outs: "set outs \<subseteq> {Inr ()}"
    by simp_all
  from out step have "fst (record_request hour_of e rt c0) = Inr ()" by simp
  then obtain k where k: "hour_of (replace_Z (timestamp e)) = Some k"
    by (auto simp: record_request_outcome)
  note one = record_request_returns [where hour_of = hour_of and e = e, OF k, of rt c0, unfolded step snd_conv]
  from Cons.IH [OF rest outs] one eqs call show ?case by simp
qed

text \<open>
  Claim C10, amended. On a fresh collector, after any sequence of calls of
  \<^const>\<open>record_request\<close> that all returned normally, the total equals the crawler count
  plus the proxy count, it equals the number of calls, and the error count is the number
  of recorded entries whose status is at least 400.
\<close>

theorem metrics_counters_after_normal_calls:
  assumes "record_requests hour_of calls (MetricsCollector_init now) = (outcomes, c)"
    and "outcomes = replicate (length calls) (Inr ())"
  shows "total_requests (metrics c) =
           ai_crawler_requests (metrics c) + proxy_requests (metrics c) \<and>
         total_requests (metrics c) = int (length calls) \<and>
         error_requests (metrics c) =
           int (length (filter (\<lambda>(e, rt). status_code e \<ge> 400) calls))"
proof -
  from assms(2) have "set outcomes \<subseteq> {Inr ()}" by auto
  from record_requests_counters [OF assms(1) this] show ?thesis
    by (simp add: MetricsCollector_init_def)
qed

lemma iso_hour_key_ok: "iso_hour_key ''2024-05-01T10:00:00+00:00'' = Some ''2024-05-01-10''"
  by (simp add: iso_hour_key_def is_digit_def)

lemma replace_Z_id: "replace_Z ''2024-05-01T10:00:00+00:00'' = ''2024-05-01T10:00:00+00:00''"
  by (simp add: replace_Z_def)

lemma iso_hour_key_bad: "iso_hour_key (replace_Z ''yesterday'') = None"
  by (simp add: iso_hour_key_def replace_Z_def)

text \<open>The theorem at two calls, a crawler answered 200 and a browser answered 404.\<close>

theorem metrics_counters_after_normal_calls_witness:
  "fst (record_requests iso_hour_key
      [(log_entry_of ''2024-05-01T10:00:00+00:00'' ''GPTBot/1.0'' 200, 0.1),
       (log_entry_of ''2024-05-01T10:00:00+00:00'' ''Mozilla/5.0 Chrome/119.0'' 404, 0.2)]
      (MetricsCollector_init ''2024-05-01T09:00:00+00:00'')) = replicate 2 (Inr ()) \<and>
   total_requests (metrics (snd (record_requests iso_hour_key
      [(log_entry_of ''2024-05-01T10:00:00+00:00'' ''GPTBot/1.0'' 200, 0.1),
       (log_entry_of ''2024-05-01T10:00:00+00:00'' ''Mozilla/5.0 Chrome/119.0'' 404, 0.2)]
      (MetricsCollector_init ''2024-05-01T09:00:00+00:00'')))) = 2 \<and>
   error_requests (metrics (snd (record_requests iso_hour_key
      [(log_entry_of ''2024-05-01T10:00:00+00:00'' ''GPTBot/1.0'' 200, 0.1),
       (log_entry_of ''2024-05-01T10:00:00+00:00'' ''Mozilla/5.0 Chrome/119.0'' 404, 0.2)]
      (MetricsCollector_init ''2024-05-01T09:00:00+00:00'')))) = 1"
proof -
  define calls where "calls =
      [(log_entry_of ''2024-05-01T10:00:00+00:00'' ''GPTBot/1.0'' 200, 0.1::real),
       (log_entry_of ''2024-05-01T10:00:00+00:00'' ''Mozilla/5.0 Chrome/119.0'' 404, 0.2)]"
  define run where "run =
      record_requests iso_hour_key calls (MetricsCollector_init ''2024-05-01T09:00:00+00:00'')"
  have k: "iso_hour_key (replace_Z (timestamp (log_entry_of ''2024-05-01T10:00:00+00:00'' ua st))) =
      Some ''2024-05-01-10''" for ua st
    by (simp add: log_entry_of_def replace_Z_id iso_hour_key_ok)
  have h2: "fst run = replicate (length calls) (Inr ())"
    using record_request_returns(1) [where hour_of = iso_hour_key, OF k]
    by (simp add: run_def calls_def split_beta)
  have h1: "record_requests iso_hour_key calls
      (MetricsCollector_init ''2024-05-01T09:00:00+00:00'') = (fst run, snd run)"
    by (simp add: run_def)
  have len: "length calls = 2"
    and cnt: "length (filter (\<lambda>(e, rt). status_code e \<ge> 400) calls) = 1"
    by (simp_all add: calls_def log_entry_of_def)
  from metrics_counters_after_normal_calls [OF h1 h2] h2 len cnt
  have "fst run = replicate 2 (Inr ()) \<and> total_requests (metrics (snd run)) = 2 \<and>
        error_requests (metrics (snd run)) = 1"
    by simp
  then show ?thesis unfolding run_def calls_def .
qed

text \<open>
  Claim C10, as stated, fails: a call whose timestamp \<^verbatim>\<open>fromisoformat\<close> rejects raises
  after the total has been incremented and before either of the two other counters is;
  after it and a further, normal call the total is 2 and the two counters add up to 1.
\<close>

theorem metrics_invariant_counterexample:
  "fst (record_requests iso_hour_key
      [(log_entry_of ''yesterday'' ''Mozilla/5.0 Chrome/119.0'' 200, 0.1),
       (log_entry_of ''2024-05-01T10:00:00+00:00'' ''Mozilla/5.0 Chrome/119.0'' 200, 0.2)]
      (MetricsCollector_init ''2024-05-01T09:00:00+00:00'')) =
     [Inl (ValueError ''yesterday''), Inr ()] \<and>
   total_requests (metrics (snd (record_requests iso_hour_key
      [(log_entry_of ''yesterday'' ''Mozilla/5.0 Chrome/119.0'' 200, 0.1),
       (log_entry_of ''2024-05-01T10:00:00+00:00'' ''Mozilla/5.0 Chrome/119.0'' 200, 0.2)]
      (MetricsCollector_init ''2024-05-01T09:00:00+00:00'')))) = 2 \<and>
   ai_crawler_requests (metrics (snd (record_requests iso_hour_key
      [(log_entry_of ''yesterday'' ''Mozilla/5.0 Chrome/119.0'' 200, 0.1),
       (log_entry_of ''2024-05-01T10:00:00+00:00'' ''Mozilla/5.0 Chrome/119.0'' 200, 0.2)]
      (MetricsCollector_init ''2024-05-01T09:00:00+00:00'')))) +
   proxy_requests (metrics (snd (record_requests iso_hour_key
      [(log_entry_of ''yesterday'' ''Mozilla/5.0 Chrome/119.0'' 200, 0.1),
       (log_entry_of ''2024-05-01T10:00:00+00:00'' ''Mozilla/5.0 Chrome/119.0'' 200, 0.2)]
      (MetricsCollector_init ''2024-05-01T09:00:00+00:00'')))) = 1"
proof -
  have good: "iso_hour_key (replace_Z (timestamp
      (log_entry_of ''2024-05-01T10:00:00+00:00'' ua st))) = Some ''2024-05-01-10''" for ua st
    by (simp add: log_entry_of_def replace_Z_id iso_hour_key_ok)
  have bad: "iso_hour_key (replace_Z (timestamp (log_entry_of ''yesterday'' ua st))) = None"
    for ua st
    by (simp add: log_entry_of_def iso_hour_key_bad)
  show ?thesis
    using record_request_returns [where hour_of = iso_hour_key, OF good]
      record_request_raises [where hour_of = iso_hour_key, OF bad]
    by (simp add: split_beta MetricsCollector_init_def)
       (simp add: log_entry_of_def replace_Z_def)
qed

end
